theory Spec2Isabelle
  imports Complex_Main "HOL-Library.Sublist"
begin

section \<open>The mbot trading engine: order sizing, indicators and the position machine\<close>

text \<open>
  A shallow embedding of \<^verbatim>\<open>bot_core.py\<close> and of the ledger writes of
  \<^verbatim>\<open>storage.py\<close>.

  Python floats are modelled by \<^typ>\<open>real\<close>: arithmetic is exact, and the one
  non-number the indicator code relies on, pandas' NaN, is the value \<open>None\<close> of
  \<^typ>\<open>real option\<close>. Exceptions are values of the datatype \<open>error\<close>.
\<close>

subsection \<open>Exceptions\<close>

datatype error =
    BinanceAPIException
  | BinanceRequestException
  | RuntimeError
  | ZeroDivisionError
  | IndexError
  | ValueError
  | OtherException

text \<open>Python's float division raises on a zero divisor.\<close>

definition py_div :: "real \<Rightarrow> real \<Rightarrow> error + real" where
  "py_div a b = (if b = 0 then Inl ZeroDivisionError else Inr (a / b))"

subsection \<open>Order sizer\<close>

text \<open>
  A filter of the exchange is a dictionary from field names to numbers (the decimal strings
  of the exchange, read by \<^verbatim>\<open>float\<close>); the filters of a symbol are a dictionary from
  the filter type to the filter.
\<close>

type_synonym filter_dict = "string \<rightharpoonup> real"
type_synonym filters = "string \<rightharpoonup> filter_dict"

text \<open>\<^verbatim>\<open>d.get(k, default)\<close> on a dictionary.\<close>

definition dict_get :: "('k \<rightharpoonup> 'v) \<Rightarrow> 'k \<Rightarrow> 'v \<Rightarrow> 'v" where
  "dict_get d k dflt = (case d k of None \<Rightarrow> dflt | Some v \<Rightarrow> v)"

definition round_step_size :: "real \<Rightarrow> real \<Rightarrow> real" where
  "round_step_size quantity step_size =
     (if step_size \<le> 0 then quantity
      else real_of_int \<lfloor>quantity / step_size\<rfloor> * step_size)"

text \<open>The four numbers \<^verbatim>\<open>conform_qty_and_notional\<close> reads from the filters, with its defaults.\<close>

definition lot_min_qty :: "filters \<Rightarrow> real" where
  "lot_min_qty filt = dict_get (dict_get filt ''LOT_SIZE'' Map.empty) ''minQty'' 0"

definition lot_max_qty :: "filters \<Rightarrow> real" where
  "lot_max_qty filt = dict_get (dict_get filt ''LOT_SIZE'' Map.empty) ''maxQty'' 1000000000000"

definition lot_step :: "filters \<Rightarrow> real" where
  "lot_step filt = dict_get (dict_get filt ''LOT_SIZE'' Map.empty) ''stepSize'' (1 / 100000000)"

definition min_notional_of :: "filters \<Rightarrow> real" where
  "min_notional_of filt = dict_get (dict_get filt ''MIN_NOTIONAL'' Map.empty) ''minNotional'' 0"

definition conform_qty_and_notional :: "real \<Rightarrow> real \<Rightarrow> filters \<Rightarrow> error + real" where
  "conform_qty_and_notional qty price filt =
     (let min_qty = lot_min_qty filt;
          max_qty = lot_max_qty filt;
          step = lot_step filt;
          min_notional = min_notional_of filt;
          qty1 = max min_qty (min qty max_qty);
          qty2 = round_step_size qty1 step
      in if qty2 * price < min_notional
         then (case py_div min_notional price of
                 Inl e \<Rightarrow> Inl e
               | Inr r \<Rightarrow> Inr (round_step_size (r * (101 / 100)) step))
         else Inr qty2)"


text \<open>
  \<^verbatim>\<open>symbol_filters\<close>: the answer of \<^verbatim>\<open>client.get_symbol_info\<close> is an exception,
  \<^verbatim>\<open>None\<close> for an unknown symbol, or the list of the symbol's filters, each with its
  \<^verbatim>\<open>filterType\<close>. The dictionary comprehension keeps the last filter of each type.
\<close>

type_synonym symbol_info = "(string \<times> filter_dict) list"

definition symbol_filters :: "error + symbol_info option \<Rightarrow> error + filters" where
  "symbol_filters resp =
     (case resp of
        Inl e \<Rightarrow> Inl e
      | Inr None \<Rightarrow> Inl RuntimeError
      | Inr (Some fs) \<Rightarrow> Inr (map_of (rev fs)))"

subsection \<open>Series\<close>

text \<open>
  A pandas float \<^verbatim>\<open>Series\<close> is a list of \<^typ>\<open>real option\<close>, \<open>None\<close> being NaN; a
  boolean series is a \<^typ>\<open>bool list\<close>. Comparisons with NaN are false, arithmetic on NaN
  is NaN, and the rolling mean of a window is NaN unless the window holds as many
  numbers as its width (pandas' default \<^verbatim>\<open>min_periods\<close>).
\<close>

type_synonym series = "real option list"

definition shift1 :: "'a option list \<Rightarrow> 'a option list" where
  "shift1 xs = (if xs = [] then [] else None # butlast xs)"

definition fillna :: "'a \<Rightarrow> 'a option list \<Rightarrow> 'a list" where
  "fillna d xs = map (\<lambda>x. case x of None \<Rightarrow> d | Some v \<Rightarrow> v) xs"

definition lift2 :: "(real \<Rightarrow> real \<Rightarrow> 'b) \<Rightarrow> real option \<Rightarrow> real option \<Rightarrow> 'b option" where
  "lift2 f a b = (case (a, b) of (Some x, Some y) \<Rightarrow> Some (f x y) | _ \<Rightarrow> None)"

definition s_sub :: "series \<Rightarrow> series \<Rightarrow> series" where
  "s_sub xs ys = map2 (lift2 (-)) xs ys"

definition s_add :: "series \<Rightarrow> series \<Rightarrow> series" where
  "s_add xs ys = map2 (lift2 (+)) xs ys"

definition s_neg :: "series \<Rightarrow> series" where
  "s_neg xs = map (map_option uminus) xs"

definition s_abs :: "series \<Rightarrow> series" where
  "s_abs xs = map (map_option abs) xs"

definition s_scale :: "real \<Rightarrow> series \<Rightarrow> series" where
  "s_scale c xs = map (map_option ((*) c)) xs"

definition s_gt :: "series \<Rightarrow> series \<Rightarrow> bool list" where
  "s_gt xs ys = map2 (\<lambda>a b. lift2 (>) a b = Some True) xs ys"

definition s_lt :: "series \<Rightarrow> series \<Rightarrow> bool list" where
  "s_lt xs ys = map2 (\<lambda>a b. lift2 (<) a b = Some True) xs ys"

definition s_gt_scalar :: "series \<Rightarrow> real \<Rightarrow> bool list" where
  "s_gt_scalar xs c = map (\<lambda>a. case a of None \<Rightarrow> False | Some x \<Rightarrow> x > c) xs"

definition s_lt_scalar :: "series \<Rightarrow> real \<Rightarrow> bool list" where
  "s_lt_scalar xs c = map (\<lambda>a. case a of None \<Rightarrow> False | Some x \<Rightarrow> x < c) xs"

definition b_and :: "bool list \<Rightarrow> bool list \<Rightarrow> bool list" where
  "b_and xs ys = map2 (\<and>) xs ys"

definition b_not :: "bool list \<Rightarrow> bool list" where
  "b_not xs = map Not xs"

text \<open>\<^verbatim>\<open>s.where(cond, other)\<close> keeps \<open>s\<close> where the condition holds and puts \<open>other\<close> elsewhere.\<close>

definition s_where :: "series \<Rightarrow> bool list \<Rightarrow> real \<Rightarrow> series" where
  "s_where xs cond other = map2 (\<lambda>x c. if c then x else Some other) xs cond"

definition series_diff :: "series \<Rightarrow> series" where
  "series_diff xs = s_sub xs (shift1 xs)"

text \<open>\<^verbatim>\<open>a / b.replace(0, np.nan)\<close>: a zero divisor becomes NaN before the division.\<close>

definition div_replace0 :: "series \<Rightarrow> series \<Rightarrow> series" where
  "div_replace0 xs ys =
     map2 (\<lambda>a b. case (a, b) of
                    (Some x, Some y) \<Rightarrow> (if y = 0 then None else Some (x / y))
                  | _ \<Rightarrow> None) xs ys"

text \<open>The row-wise maximum of two columns skips NaN, as \<^verbatim>\<open>max(axis=1)\<close> does.\<close>

definition s_max2 :: "series \<Rightarrow> series \<Rightarrow> series" where
  "s_max2 xs ys =
     map2 (\<lambda>a b. case (a, b) of
                    (None, _) \<Rightarrow> b
                  | (_, None) \<Rightarrow> a
                  | (Some x, Some y) \<Rightarrow> Some (max x y)) xs ys"

definition window_mean :: "nat \<Rightarrow> real option list \<Rightarrow> real option" where
  "window_mean w ys =
     (if w = 0 \<or> length ys < w then None
      else (case those ys of None \<Rightarrow> None | Some vs \<Rightarrow> Some (sum_list vs / real w)))"

definition window :: "nat \<Rightarrow> 'a list \<Rightarrow> nat \<Rightarrow> 'a list" where
  "window w xs t = drop (t + 1 - w) (take (t + 1) xs)"

definition rolling_mean :: "nat \<Rightarrow> series \<Rightarrow> series" where
  "rolling_mean w xs = map (\<lambda>t. window_mean w (window w xs t)) [0..<length xs]"

subsection \<open>Indicators\<close>

text \<open>
  \<^verbatim>\<open>series.ewm(span=length, adjust=False).mean()\<close>: the first value seeds the series and
  each later one is \<open>(1 - \<alpha>) * previous + \<alpha> * x\<close> with \<open>\<alpha> = 2 / (span + 1)\<close>; pandas
  refuses a span below 1.
\<close>

fun ewm_mean :: "real \<Rightarrow> real \<Rightarrow> real list \<Rightarrow> real list" where
  "ewm_mean a y [] = []"
| "ewm_mean a y (x # xs) = ((1 - a) * y + a * x) # ewm_mean a ((1 - a) * y + a * x) xs"

definition ema :: "real list \<Rightarrow> nat \<Rightarrow> error + real list" where
  "ema xs span_len =
     (if span_len < 1 then Inl ValueError
      else Inr (case xs of [] \<Rightarrow> []
                | x # rest \<Rightarrow> x # ewm_mean (2 / (real span_len + 1)) x rest))"

definition rsi :: "real list \<Rightarrow> nat \<Rightarrow> real list" where
  "rsi xs len =
     (let delta = series_diff (map Some xs);
          gain = rolling_mean len (s_where delta (s_gt_scalar delta 0) 0);
          loss = rolling_mean len (s_neg (s_where delta (s_lt_scalar delta 0) 0));
          rs = div_replace0 gain loss;
          rsi_val = map (map_option (\<lambda>r. 100 - 100 / (1 + r))) rs
      in fillna 50 rsi_val)"

definition dmi_adx ::
  "real list \<Rightarrow> real list \<Rightarrow> real list \<Rightarrow> nat \<Rightarrow> nat \<Rightarrow> real list \<times> real list \<times> real list" where
  "dmi_adx high low close len smoothing =
     (let h = map Some high; l = map Some low;
          prev_close = shift1 (map Some close);
          tr = s_max2 (s_max2 (s_abs (s_sub h l)) (s_abs (s_sub h prev_close)))
                      (s_abs (s_sub l prev_close));
          up_move = series_diff h;
          down_move = s_neg (series_diff l);
          plus_dm = s_where up_move (b_and (s_gt up_move down_move) (s_gt_scalar up_move 0)) 0;
          minus_dm = s_where down_move (b_and (s_gt down_move up_move) (s_gt_scalar down_move 0)) 0;
          atr = rolling_mean len tr;
          plus_di = s_scale 100 (div_replace0 (rolling_mean len plus_dm) atr);
          minus_di = s_scale 100 (div_replace0 (rolling_mean len minus_dm) atr);
          dx = s_scale 100 (div_replace0 (s_abs (s_sub plus_di minus_di)) (s_add plus_di minus_di));
          adx = rolling_mean smoothing dx
      in (fillna 0 plus_di, fillna 0 minus_di, fillna 0 adx))"

subsection \<open>Trend-phase classifier\<close>

record bar =
  open_time :: int
  open_price :: real
  high :: real
  low :: real
  close :: real
  volume :: real
  close_time :: int

record TrendPhases =
  ema_short :: nat
  ema_long :: nat
  rsi_len :: nat
  adx_len :: nat
  adx_smooth :: nat
  adx_thr :: real
  rsi_up :: real
  rsi_down :: real

definition TrendPhases_init :: TrendPhases where
  "TrendPhases_init =
     \<lparr>ema_short = 20, ema_long = 50, rsi_len = 14, adx_len = 14, adx_smooth = 14,
      adx_thr = 25, rsi_up = 55, rsi_down = 35\<rparr>"

text \<open>The data frame that \<^verbatim>\<open>compute\<close> returns: the bars and one list per added column.\<close>

record frame =
  bars :: "bar list"
  emaShort :: "real list"
  emaLong :: "real list"
  rsiVal :: "real list"
  plusDI :: "real list"
  minusDI :: "real list"
  adxVal :: "real list"
  strongUpTrend :: "bool list"
  strongDownTrend :: "bool list"
  debutHausse :: "bool list"
  debutBaisse :: "bool list"
  finHausse :: "bool list"
  finBaisse :: "bool list"

text \<open>\<^verbatim>\<open>s.shift(1).fillna(False)\<close> on a boolean series.\<close>

definition prev_flag :: "bool list \<Rightarrow> bool list" where
  "prev_flag xs = fillna False (shift1 (map Some xs))"

definition compute :: "TrendPhases \<Rightarrow> bar list \<Rightarrow> error + frame" where
  "compute self df =
     (case ema (map close df) (ema_short self) of
        Inl e \<Rightarrow> Inl e
      | Inr es \<Rightarrow>
     (case ema (map close df) (ema_long self) of
        Inl e \<Rightarrow> Inl e
      | Inr el \<Rightarrow>
     (let r = rsi (map close df) (rsi_len self);
          (pdi, mdi, adx) = dmi_adx (map high df) (map low df) (map close df)
                                    (adx_len self) (adx_smooth self);
          sup = b_and (b_and (b_and (b_and
                  (s_gt (map Some es) (map Some el))
                  (s_gt (map Some pdi) (map Some mdi)))
                  (s_gt_scalar (map Some r) (rsi_up self)))
                  (s_gt_scalar (map Some adx) (adx_thr self)))
                  (s_gt (map Some es) (shift1 (map Some es)));
          sdown = b_and (b_and (b_and (b_and
                  (s_lt (map Some es) (map Some el))
                  (s_gt (map Some mdi) (map Some pdi)))
                  (s_lt_scalar (map Some r) (rsi_down self)))
                  (s_gt_scalar (map Some adx) (adx_thr self)))
                  (s_lt (map Some es) (shift1 (map Some es)))
      in Inr \<lparr>bars = df, emaShort = es, emaLong = el, rsiVal = r,
              plusDI = pdi, minusDI = mdi, adxVal = adx,
              strongUpTrend = sup, strongDownTrend = sdown,
              debutHausse = b_and sup (b_not (prev_flag sup)),
              debutBaisse = b_and sdown (b_not (prev_flag sdown)),
              finHausse = b_and (prev_flag sup) (b_not sup),
              finBaisse = b_and (prev_flag sdown) (b_not sdown)\<rparr>)))"

subsection \<open>Ledger\<close>

text \<open>
  The tables of \<^verbatim>\<open>storage.py\<close> as lists of rows in insertion order, and the positions
  table as a dictionary on its primary key. The columns \<^verbatim>\<open>id\<close> and \<^verbatim>\<open>ts\<close>, filled by
  sqlite and by the clock, are left out; a write is taken to succeed. A log message is kept
  as the data its format string prints.
\<close>

datatype side = FLAT | LONG

datatype order_side = BUY | SELL

datatype level = INFO | DEBUG | ERROR

datatype message =
    BotStart bool bool
  | InitKlinesFailed error
  | DebugTick int real "bool \<times> bool \<times> bool \<times> bool" "side \<times> real \<times> real"
  | BinanceError error
  | LoopError error
  | BotStopped
  | GetAccountFailed error
  | DryRunBuy real
  | BuyResp string
  | DryRunSell real
  | SellResp string

record trade_row =
  t_symbol :: string
  t_side :: order_side
  t_qty :: real
  t_price :: real
  t_notional :: real
  t_pnl :: "real option"
  t_extra :: string

record position_row =
  p_side :: side
  p_qty :: real
  p_entry_price :: real

record log_row =
  l_symbol :: string
  l_level :: level
  l_message :: message

subsection \<open>The bot and its world\<close>

record bot =
  symbol :: string
  interval :: string
  risk_pct :: real
  max_pos :: real
  testnet :: bool
  dry_run :: bool
  api_key :: string
  api_secret :: string
  lookback :: nat
  sleep_s :: nat
  strat :: TrendPhases
  pos_side :: side
  pos_qty :: real
  entry_price :: real
  last_close_time :: "int option"

text \<open>
  The world a bot runs in: its own fields, the three tables of the ledger, and the calls of
  \<^verbatim>\<open>client.create_order\<close> made so far.
\<close>

record world = bot +
  trades :: "trade_row list"
  positions :: "string \<rightharpoonup> position_row"
  logs :: "log_row list"
  orders :: "(string \<times> order_side \<times> real) list"

definition dblog :: "string \<Rightarrow> level \<Rightarrow> message \<Rightarrow> world \<Rightarrow> world" where
  "dblog smb lvl msg w =
     w\<lparr>logs := logs w @ [\<lparr>l_symbol = smb, l_level = lvl, l_message = msg\<rparr>]\<rparr>"

definition insert_trade ::
  "string \<Rightarrow> order_side \<Rightarrow> real \<Rightarrow> real \<Rightarrow> real option \<Rightarrow> string \<Rightarrow> world \<Rightarrow> world" where
  "insert_trade smb sd qty price pnl extra w =
     w\<lparr>trades := trades w @
          [\<lparr>t_symbol = smb, t_side = sd, t_qty = qty, t_price = price,
            t_notional = qty * price, t_pnl = pnl, t_extra = extra\<rparr>]\<rparr>"

definition upsert_position :: "string \<Rightarrow> side \<Rightarrow> real \<Rightarrow> real \<Rightarrow> world \<Rightarrow> world" where
  "upsert_position smb sd qty entry w =
     w\<lparr>positions := (positions w)(smb \<mapsto> \<lparr>p_side = sd, p_qty = qty, p_entry_price = entry\<rparr>)\<rparr>"

definition clear_position :: "string \<Rightarrow> world \<Rightarrow> world" where
  "clear_position smb w = w\<lparr>positions := (positions w)(smb := None)\<rparr>"

text \<open>
  What the exchange answers during one tick: each call of the client returns a value or
  raises.
\<close>

record env =
  klines :: "error + bar list"
  ticker :: "error + real"
  account :: "error + (string \<times> real) list"
  symbol_info_resp :: "error + symbol_info option"
  create_order_resp :: "error + string"

text \<open>
  \<^verbatim>\<open>Bot.__init__\<close>, on a ledger that holds the given tables. The methods
  \<^verbatim>\<open>_compute_qty\<close>, \<^verbatim>\<open>_buy_market\<close>, \<^verbatim>\<open>_sell_market\<close>, \<^verbatim>\<open>_set_long\<close> and
  \<^verbatim>\<open>_set_flat\<close> lose their leading underscore.
\<close>

definition Bot_init ::
  "string \<Rightarrow> string \<Rightarrow> real \<Rightarrow> real \<Rightarrow> bool \<Rightarrow> bool \<Rightarrow> string \<Rightarrow> string \<Rightarrow>
   trade_row list \<Rightarrow> (string \<rightharpoonup> position_row) \<Rightarrow> log_row list \<Rightarrow> world" where
  "Bot_init smb itv risk maxp tn dr key sec ts ps ls =
     \<lparr>symbol = smb, interval = itv, risk_pct = risk, max_pos = maxp, testnet = tn,
      dry_run = dr, api_key = key, api_secret = sec, lookback = 500, sleep_s = 2,
      strat = TrendPhases_init, pos_side = FLAT, pos_qty = 0, entry_price = 0,
      last_close_time = None, trades = ts, positions = ps, logs = ls, orders = []\<rparr>"

definition set_long :: "world \<Rightarrow> real \<Rightarrow> real \<Rightarrow> world" where
  "set_long w qty price =
     upsert_position (symbol w) LONG qty price
       (w\<lparr>pos_side := LONG, pos_qty := qty, entry_price := price\<rparr>)"

definition set_flat :: "world \<Rightarrow> world" where
  "set_flat w =
     clear_position (symbol w) (w\<lparr>pos_side := FLAT, pos_qty := 0, entry_price := 0\<rparr>)"

definition buy_market :: "world \<Rightarrow> real \<Rightarrow> env \<Rightarrow> world \<times> error option" where
  "buy_market w qty e =
     (if dry_run w then (dblog (symbol w) INFO (DryRunBuy qty) w, None)
      else (let w1 = w\<lparr>orders := orders w @ [(symbol w, BUY, qty)]\<rparr>
            in case create_order_resp e of
                 Inl err \<Rightarrow> (w1, Some err)
               | Inr resp \<Rightarrow> (dblog (symbol w1) INFO (BuyResp resp) w1, None)))"

definition sell_market :: "world \<Rightarrow> real \<Rightarrow> env \<Rightarrow> world \<times> error option" where
  "sell_market w qty e =
     (if dry_run w then (dblog (symbol w) INFO (DryRunSell qty) w, None)
      else (let w1 = w\<lparr>orders := orders w @ [(symbol w, SELL, qty)]\<rparr>
            in case create_order_resp e of
                 Inl err \<Rightarrow> (w1, Some err)
               | Inr resp \<Rightarrow> (dblog (symbol w1) INFO (SellResp resp) w1, None)))"

definition quote_asset :: "string \<Rightarrow> string" where
  "quote_asset smb = (if suffix ''USDT'' smb then ''USDT'' else drop (length smb - 3) smb)"

definition compute_qty :: "world \<Rightarrow> real \<Rightarrow> env \<Rightarrow> world \<times> (error + real)" where
  "compute_qty w price e =
     (let quote = quote_asset (symbol w);
          (w1, bal) = (case account e of
                         Inl err \<Rightarrow> (dblog (symbol w) ERROR (GetAccountFailed err) w, 0)
                       | Inr balances \<Rightarrow>
                           (w, case find (\<lambda>b. fst b = quote) balances of
                                 None \<Rightarrow> 0 | Some b \<Rightarrow> snd b));
          amount = bal * risk_pct w1;
          amount1 = (if max_pos w1 > 0 then min amount (max_pos w1) else amount);
          raw_qty = (if price > 0 then amount1 / price else 0)
      in case symbol_filters (symbol_info_resp e) of
           Inl err \<Rightarrow> (w1, Inl err)
         | Inr filt \<Rightarrow> (w1, conform_qty_and_notional raw_qty price filt))"

subsection \<open>Execution engine\<close>

text \<open>
  The body of the \<^verbatim>\<open>try\<close> of one loop iteration. It returns the world as the body left
  it, and the exception that ended it, if one did.
\<close>

definition tick_body :: "world \<Rightarrow> env \<Rightarrow> world \<times> error option" where
  "tick_body w e =
     (case klines e of
        Inl err \<Rightarrow> (w, Some err)
      | Inr new_df \<Rightarrow>
          if new_df = [] then (w, Some IndexError)
          else
            let nct = close_time (last new_df) in
            if (case last_close_time w of None \<Rightarrow> False | Some lct \<Rightarrow> nct \<le> lct)
            then (w, None)
            else
              let w1 = w\<lparr>last_close_time := Some nct\<rparr> in
              (case compute (strat w1) new_df of
                 Inl err \<Rightarrow> (w1, Some err)
               | Inr calc \<Rightarrow>
                   let price = close (last (bars calc));
                       dH = last (debutHausse calc);
                       dB = last (debutBaisse calc);
                       fH = last (finHausse calc);
                       fB = last (finBaisse calc);
                       w2 = dblog (symbol w1) DEBUG
                              (DebugTick nct price (dH, dB, fH, fB)
                                 (pos_side w1, pos_qty w1, entry_price w1)) w1
                   in
                   if pos_side w2 = LONG then
                     (if dB \<or> fH then
                        (let qty = pos_qty w2 in
                         if qty > 0 then
                           (case sell_market w2 qty e of
                              (w3, Some err) \<Rightarrow> (w3, Some err)
                            | (w3, None) \<Rightarrow>
                                (set_flat
                                   (insert_trade (symbol w3) SELL qty price
                                      (Some ((price - entry_price w3) * qty)) ''exit'' w3),
                                 None))
                         else (set_flat w2, None))
                      else (w2, None))
                   else
                     (if dH then
                        (case ticker e of
                           Inl err \<Rightarrow> (w2, Some err)
                         | Inr price_now \<Rightarrow>
                             (case compute_qty w2 price_now e of
                                (w3, Inl err) \<Rightarrow> (w3, Some err)
                              | (w3, Inr qty) \<Rightarrow>
                                  if qty > 0 then
                                    (case buy_market w3 qty e of
                                       (w4, Some err) \<Rightarrow> (w4, Some err)
                                     | (w4, None) \<Rightarrow>
                                         (set_long
                                            (insert_trade (symbol w4) BUY qty price_now
                                               None ''entry'' w4)
                                            qty price_now,
                                          None))
                                  else (w3, None)))
                      else (w2, None))))"

text \<open>One loop iteration: the body, then the two \<^verbatim>\<open>except\<close> clauses.\<close>

definition tick :: "world \<Rightarrow> env \<Rightarrow> world" where
  "tick w e =
     (case tick_body w e of
        (w1, None) \<Rightarrow> w1
      | (w1, Some err) \<Rightarrow>
          if err = BinanceAPIException \<or> err = BinanceRequestException
          then dblog (symbol w1) ERROR (BinanceError err) w1
          else dblog (symbol w1) ERROR (LoopError err) w1)"

text \<open>
  \<^verbatim>\<open>Bot.run\<close>: the first fetch, then one tick for each answer of the exchange until the
  stop event is seen, which is after the last element of the list.
\<close>

definition run :: "world \<Rightarrow> env \<Rightarrow> env list \<Rightarrow> world" where
  "run w e0 es =
     (let w0 = dblog (symbol w) INFO (BotStart (testnet w) (dry_run w)) w in
      case klines e0 of
        Inl err \<Rightarrow> dblog (symbol w0) ERROR (InitKlinesFailed err) w0
      | Inr df \<Rightarrow>
          if df = [] then dblog (symbol w0) ERROR (InitKlinesFailed IndexError) w0
          else dblog (symbol w0) INFO BotStopped
                 (foldl tick (w0\<lparr>last_close_time := Some (close_time (last df))\<rparr>) es))"

subsection \<open>Example inputs\<close>

text \<open>Filters as the exchange lists them, used by the examples below.\<close>

definition info_a :: symbol_info where
  "info_a =
     [(''LOT_SIZE'', map_of [(''minQty'', 1 / 10000), (''maxQty'', 1000), (''stepSize'', 1 / 10000)]),
      (''MIN_NOTIONAL'', map_of [(''minNotional'', 10)])]"

definition info_b :: symbol_info where
  "info_b =
     [(''LOT_SIZE'', map_of [(''stepSize'', 1 / 100)]),
      (''MIN_NOTIONAL'', map_of [(''minNotional'', 10)])]"

definition info_coarse :: symbol_info where
  "info_coarse =
     [(''LOT_SIZE'', map_of [(''minQty'', 1), (''maxQty'', 1000), (''stepSize'', 1)]),
      (''MIN_NOTIONAL'', map_of [(''minNotional'', 10)])]"

definition info_offgrid :: symbol_info where
  "info_offgrid =
     [(''LOT_SIZE'', map_of [(''minQty'', 15 / 1000), (''maxQty'', 1000), (''stepSize'', 1 / 100)]),
      (''MIN_NOTIONAL'', map_of [(''minNotional'', 1)])]"

definition info_lowmax :: symbol_info where
  "info_lowmax =
     [(''LOT_SIZE'', map_of [(''minQty'', 1), (''maxQty'', 5), (''stepSize'', 1)]),
      (''MIN_NOTIONAL'', map_of [(''minNotional'', 10)])]"

definition info_lot_only :: symbol_info where
  "info_lot_only =
     [(''LOT_SIZE'', map_of [(''minQty'', 1 / 10000), (''maxQty'', 1000), (''stepSize'', 1 / 10000)])]"


text \<open>A bot on BTCUSDT and the answers of the exchange for one tick.\<close>

definition bot_ex :: "real \<Rightarrow> bool \<Rightarrow> world" where
  "bot_ex risk dr = Bot_init ''BTCUSDT'' ''1m'' risk 0 True dr [] [] [] Map.empty []"

definition env_ex :: "bar list \<Rightarrow> real \<Rightarrow> real \<Rightarrow> symbol_info \<Rightarrow> env" where
  "env_ex df p bal info =
     \<lparr>klines = Inr df, ticker = Inr p, account = Inr [(''BTC'', 1), (''USDT'', bal)],
      symbol_info_resp = Inr (Some info), create_order_resp = Inr ''FILLED''\<rparr>"

text \<open>
  A window of 27 one-minute bars on which the default strategy signals the start of an
  uptrend at the last bar, and the same window one bar later, where the uptrend ends.
\<close>

definition mkbar :: "nat \<Rightarrow> real \<Rightarrow> bar" where
  "mkbar i c =
     \<lparr>open_time = int i * 60000, open_price = c, high = 200 + real i, low = 50 + real i,
      close = c, volume = 1, close_time = int i * 60000 + 59999\<rparr>"

definition closes27 :: "real list" where
  "closes27 = replicate 24 100 @ [99, 100, 200]"

definition bars27 :: "bar list" where
  "bars27 = map2 mkbar [0..<27] closes27"

definition bars28 :: "bar list" where
  "bars28 = bars27 @ [mkbar 27 110]"

subsection \<open>Notions used by the properties\<close>

text \<open>
  The position of a bot, a row of the trades table, and the two branches of the position
  test in the loop body, named so that each can be reasoned about on its own.
\<close>

definition position :: "world \<Rightarrow> side \<times> real \<times> real" where
  "position w = (pos_side w, pos_qty w, entry_price w)"

definition trade ::
  "string \<Rightarrow> order_side \<Rightarrow> real \<Rightarrow> real \<Rightarrow> real option \<Rightarrow> string \<Rightarrow> trade_row" where
  "trade smb sd qty price pnl extra =
     \<lparr>t_symbol = smb, t_side = sd, t_qty = qty, t_price = price,
      t_notional = qty * price, t_pnl = pnl, t_extra = extra\<rparr>"

definition long_branch :: "world \<Rightarrow> env \<Rightarrow> real \<Rightarrow> bool \<Rightarrow> world \<times> error option" where
  "long_branch w2 e price exit_signal =
     (if exit_signal then
        (let qty = pos_qty w2 in
         if qty > 0 then
           (case sell_market w2 qty e of
              (w3, Some err) \<Rightarrow> (w3, Some err)
            | (w3, None) \<Rightarrow>
                (set_flat
                   (insert_trade (symbol w3) SELL qty price
                      (Some ((price - entry_price w3) * qty)) ''exit'' w3),
                 None))
         else (set_flat w2, None))
      else (w2, None))"

definition flat_branch :: "world \<Rightarrow> env \<Rightarrow> bool \<Rightarrow> world \<times> error option" where
  "flat_branch w2 e dH =
     (if dH then
        (case ticker e of
           Inl err \<Rightarrow> (w2, Some err)
         | Inr price_now \<Rightarrow>
             (case compute_qty w2 price_now e of
                (w3, Inl err) \<Rightarrow> (w3, Some err)
              | (w3, Inr qty) \<Rightarrow>
                  if qty > 0 then
                    (case buy_market w3 qty e of
                       (w4, Some err) \<Rightarrow> (w4, Some err)
                     | (w4, None) \<Rightarrow>
                         (set_long
                            (insert_trade (symbol w4) BUY qty price_now
                               None ''entry'' w4)
                            qty price_now,
                          None))
                  else (w3, None)))
      else (w2, None))"

definition debug_row :: "world \<Rightarrow> int \<Rightarrow> frame \<Rightarrow> world" where
  "debug_row w1 nct calc =
     dblog (symbol w1) DEBUG
       (DebugTick nct (close (last (bars calc)))
          (last (debutHausse calc), last (debutBaisse calc), last (finHausse calc),
           last (finBaisse calc))
          (pos_side w1, pos_qty w1, entry_price w1)) w1"

text \<open>
  What one tick can do to the position, the trades and positions tables and the order
  calls: nothing (but possibly an order call that was refused), an entry, an exit, or the
  reset of a long position that holds no quantity.
\<close>

definition no_transition :: "world \<Rightarrow> env \<Rightarrow> world \<Rightarrow> bool" where
  "no_transition w e w' \<longleftrightarrow>
     position w' = position w \<and> trades w' = trades w \<and> positions w' = positions w
     \<and> (orders w' = orders w
        \<or> (\<exists>q err. pos_side w \<noteq> LONG \<and> 0 < q \<and> \<not> dry_run w \<and> create_order_resp e = Inl err
              \<and> orders w' = orders w @ [(symbol w, BUY, q)])
        \<or> (\<exists>err. pos_side w = LONG \<and> 0 < pos_qty w \<and> \<not> dry_run w
              \<and> create_order_resp e = Inl err
              \<and> orders w' = orders w @ [(symbol w, SELL, pos_qty w)]))"

definition entry_transition :: "world \<Rightarrow> env \<Rightarrow> world \<Rightarrow> bool" where
  "entry_transition w e w' \<longleftrightarrow>
     pos_side w \<noteq> LONG
     \<and> (\<exists>q p. 0 < q \<and> ticker e = Inr p \<and> position w' = (LONG, q, p)
           \<and> trades w' = trades w @ [trade (symbol w) BUY q p None ''entry'']
           \<and> positions w' =
               (positions w)(symbol w \<mapsto> \<lparr>p_side = LONG, p_qty = q, p_entry_price = p\<rparr>)
           \<and> orders w' = orders w @ (if dry_run w then [] else [(symbol w, BUY, q)])
           \<and> (dry_run w \<or> (\<exists>resp. create_order_resp e = Inr resp)))"

definition exit_transition :: "world \<Rightarrow> env \<Rightarrow> world \<Rightarrow> bool" where
  "exit_transition w e w' \<longleftrightarrow>
     pos_side w = LONG \<and> 0 < pos_qty w
     \<and> (\<exists>df. klines e = Inr df \<and> df \<noteq> [] \<and> position w' = (FLAT, 0, 0)
           \<and> trades w' = trades w @
                [trade (symbol w) SELL (pos_qty w) (close (last df))
                   (Some ((close (last df) - entry_price w) * pos_qty w)) ''exit'']
           \<and> positions w' = (positions w)(symbol w := None)
           \<and> orders w' = orders w @ (if dry_run w then [] else [(symbol w, SELL, pos_qty w)])
           \<and> (dry_run w \<or> (\<exists>resp. create_order_resp e = Inr resp)))"

definition flatten_transition :: "world \<Rightarrow> world \<Rightarrow> bool" where
  "flatten_transition w w' \<longleftrightarrow>
     pos_side w = LONG \<and> pos_qty w \<le> 0 \<and> position w' = (FLAT, 0, 0)
     \<and> trades w' = trades w \<and> positions w' = (positions w)(symbol w := None)
     \<and> orders w' = orders w"

text \<open>
  The invariant of the position, the rows and order calls a tick adds, and two bots of the
  examples: one that is flat and has processed the window up to its last bar but one, and
  one that holds 1 unit bought at 100.
\<close>

definition pos_inv :: "world \<Rightarrow> bool" where
  "pos_inv w \<longleftrightarrow> (pos_side w = FLAT) = (pos_qty w = 0)"

definition new_trades :: "world \<Rightarrow> world \<Rightarrow> trade_row list" where
  "new_trades w w' = drop (length (trades w)) (trades w')"

definition new_orders :: "world \<Rightarrow> world \<Rightarrow> (string \<times> order_side \<times> real) list" where
  "new_orders w w' = drop (length (orders w)) (orders w')"

definition bot_ready :: "real \<Rightarrow> bool \<Rightarrow> world" where
  "bot_ready risk dr = (bot_ex risk dr)\<lparr>last_close_time := Some 1559999\<rparr>"

definition bot_long :: "real \<Rightarrow> bool \<Rightarrow> world" where
  "bot_long risk dr =
     (bot_ex risk dr)\<lparr>pos_side := LONG, pos_qty := 1, entry_price := 100,
                       last_close_time := Some 1619999\<rparr>"

text \<open>The fields of a bot that are set when it is built.\<close>

definition config ::
  "world \<Rightarrow> string \<times> string \<times> real \<times> real \<times> bool \<times> bool \<times> string \<times> string \<times> nat \<times> nat \<times> TrendPhases" where
  "config w =
     (symbol w, interval w, risk_pct w, max_pos w, testnet w, dry_run w, api_key w,
      api_secret w, lookback w, sleep_s w, strat w)"

section \<open>Properties\<close>

subsection \<open>Order sizer\<close>


lemmas info_defs =
  info_a_def info_b_def info_coarse_def info_offgrid_def info_lowmax_def info_lot_only_def














text \<open>
  C3 at a price that is not positive. The raw quantity is 0, but
  \<^verbatim>\<open>conform_qty_and_notional\<close> clamps it up to \<open>minQty\<close> and divides the minimum
  notional by the price: at price 0 the division raises; at price -1 the sizer returns
  a negative quantity; and without a minimum-notional filter it returns \<open>minQty\<close> at
  price 0.
\<close>

theorem sizer_nonpositive_price:
  "snd (compute_qty (bot_ex (1 / 10) True) 0 (env_ex [] 0 1000 info_a)) = Inl ZeroDivisionError
   \<and> snd (compute_qty (bot_ex (1 / 10) True) (- 1) (env_ex [] (- 1) 1000 info_a))
       = Inr (- 101 / 10)
   \<and> snd (compute_qty (bot_ex (1 / 10) True) 0 (env_ex [] 0 1000 info_lot_only))
       = Inr (1 / 10000)"
  by (simp add: compute_qty_def bot_ex_def env_ex_def Bot_init_def quote_asset_def
      suffix_def symbol_filters_def conform_qty_and_notional_def info_defs
      lot_min_qty_def lot_max_qty_def lot_step_def min_notional_of_def dict_get_def
      round_step_size_def py_div_def Let_def)

subsection \<open>The example windows\<close>

lemmas series_defs =
  series_diff_def s_sub_def s_add_def shift1_def lift2_def s_where_def s_gt_scalar_def
  s_lt_scalar_def s_gt_def s_lt_def s_neg_def s_abs_def s_scale_def s_max2_def b_and_def
  b_not_def rolling_mean_def window_def window_mean_def div_replace0_def fillna_def
  prev_flag_def

lemma bars27_cols:
  "map close bars27 = [100, 100, 100, 100, 100, 100, 100, 100, 100, 100, 100, 100, 100, 100, 100,
      100, 100, 100, 100, 100, 100, 100, 100, 100, 99, 100, 200]"
  "map high bars27 = [200, 201, 202, 203, 204, 205, 206, 207, 208, 209, 210, 211, 212, 213, 214,
      215, 216, 217, 218, 219, 220, 221, 222, 223, 224, 225, 226]"
  "map low bars27 = [50, 51, 52, 53, 54, 55, 56, 57, 58, 59, 60, 61, 62, 63, 64, 65, 66, 67, 68,
      69, 70, 71, 72, 73, 74, 75, 76]"
  by (simp_all add: bars27_def closes27_def mkbar_def eval_nat_numeral upt_rec)

lemma bars28_cols:
  "map close bars28 = [100, 100, 100, 100, 100, 100, 100, 100, 100, 100, 100, 100, 100, 100, 100,
      100, 100, 100, 100, 100, 100, 100, 100, 100, 99, 100, 200, 110]"
  "map high bars28 = [200, 201, 202, 203, 204, 205, 206, 207, 208, 209, 210, 211, 212, 213, 214,
      215, 216, 217, 218, 219, 220, 221, 222, 223, 224, 225, 226, 227]"
  "map low bars28 = [50, 51, 52, 53, 54, 55, 56, 57, 58, 59, 60, 61, 62, 63, 64, 65, 66, 67, 68,
      69, 70, 71, 72, 73, 74, 75, 76, 77]"
  by (simp_all add: bars28_def bars27_cols mkbar_def)

lemma bars27_last: "bars27 \<noteq> []" "close_time (last bars27) = 1619999" "close (last bars27) = 200"
  by (simp_all add: bars27_def closes27_def mkbar_def eval_nat_numeral upt_rec)

lemma bars28_last: "bars28 \<noteq> []" "close_time (last bars28) = 1679999" "close (last bars28) = 110"
  by (simp_all add: bars28_def mkbar_def)

lemma ema_27:
  "ema [100, 100, 100, 100, 100, 100, 100, 100, 100, 100, 100, 100, 100, 100, 100, 100, 100, 100,
      100, 100, 100, 100, 100, 100, 99, 100, 200] 20 = Inr [100, 100, 100, 100, 100, 100, 100,
      100, 100, 100, 100, 100, 100, 100, 100, 100, 100, 100, 100, 100, 100, 100, 100, 100,
      2098 / 21, 44062 / 441, 1013578 / 9261]"
  "ema [100, 100, 100, 100, 100, 100, 100, 100, 100, 100, 100, 100, 100, 100, 100, 100, 100, 100,
      100, 100, 100, 100, 100, 100, 99, 100, 200] 50 = Inr [100, 100, 100, 100, 100, 100, 100,
      100, 100, 100, 100, 100, 100, 100, 100, 100, 100, 100, 100, 100, 100, 100, 100, 100,
      5098 / 51, 260002 / 2601, 13780498 / 132651]"
  by (simp_all add: ema_def)

lemma ema_28:
  "ema [100, 100, 100, 100, 100, 100, 100, 100, 100, 100, 100, 100, 100, 100, 100, 100, 100, 100,
      100, 100, 100, 100, 100, 100, 99, 100, 200, 110] 20 = Inr [100, 100, 100, 100, 100, 100,
      100, 100, 100, 100, 100, 100, 100, 100, 100, 100, 100, 100, 100, 100, 100, 100, 100, 100,
      2098 / 21, 44062 / 441, 1013578 / 9261, 21295402 / 194481]"
  "ema [100, 100, 100, 100, 100, 100, 100, 100, 100, 100, 100, 100, 100, 100, 100, 100, 100, 100,
      100, 100, 100, 100, 100, 100, 99, 100, 200, 110] 50 = Inr [100, 100, 100, 100, 100, 100,
      100, 100, 100, 100, 100, 100, 100, 100, 100, 100, 100, 100, 100, 100, 100, 100, 100, 100,
      5098 / 51, 260002 / 2601, 13780498 / 132651, 704427622 / 6765201]"
  by (simp_all add: ema_def)

lemma rsi_27: "rsi [100, 100, 100, 100, 100, 100, 100, 100, 100, 100, 100, 100, 100, 100, 100,
      100, 100, 100, 100, 100, 100, 100, 100, 100, 99, 100, 200] 14 = [50, 50, 50, 50, 50, 50,
      50, 50, 50, 50, 50, 50, 50, 50, 50, 50, 50, 50, 50, 50, 50, 50, 50, 50, 0, 50, 5050 / 51]"
  unfolding rsi_def Let_def by (simp add: series_defs)

lemma rsi_28: "rsi [100, 100, 100, 100, 100, 100, 100, 100, 100, 100, 100, 100, 100, 100, 100,
      100, 100, 100, 100, 100, 100, 100, 100, 100, 99, 100, 200, 110] 14 = [50, 50, 50, 50, 50,
      50, 50, 50, 50, 50, 50, 50, 50, 50, 50, 50, 50, 50, 50, 50, 50, 50, 50, 50, 0, 50,
      5050 / 51, 2525 / 48]"
  unfolding rsi_def Let_def by (simp add: series_defs)

lemma dmi_27: "dmi_adx [200, 201, 202, 203, 204, 205, 206, 207, 208, 209, 210, 211, 212, 213,
      214, 215, 216, 217, 218, 219, 220, 221, 222, 223, 224, 225, 226] [50, 51, 52, 53, 54, 55,
      56, 57, 58, 59, 60, 61, 62, 63, 64, 65, 66, 67, 68, 69, 70, 71, 72, 73, 74, 75, 76] [100,
      100, 100, 100, 100, 100, 100, 100, 100, 100, 100, 100, 100, 100, 100, 100, 100, 100, 100,
      100, 100, 100, 100, 100, 99, 100, 200] 14 14 =
     ([0, 0, 0, 0, 0, 0, 0, 0, 0, 0, 0, 0, 0, 13 / 21, 2 / 3, 2 / 3, 2 / 3, 2 / 3, 2 / 3, 2 / 3,
      2 / 3, 2 / 3, 2 / 3, 2 / 3, 2 / 3, 2 / 3, 2 / 3],
      [0, 0, 0, 0, 0, 0, 0, 0, 0, 0, 0, 0, 0, 0, 0, 0, 0, 0, 0, 0, 0, 0, 0, 0, 0, 0, 0],
      [0, 0, 0, 0, 0, 0, 0, 0, 0, 0, 0, 0, 0, 0, 0, 0, 0, 0, 0, 0, 0, 0, 0, 0, 0, 0, 100])"
  unfolding dmi_adx_def Let_def by (simp add: series_defs)

lemma dmi_28: "dmi_adx [200, 201, 202, 203, 204, 205, 206, 207, 208, 209, 210, 211, 212, 213,
      214, 215, 216, 217, 218, 219, 220, 221, 222, 223, 224, 225, 226, 227] [50, 51, 52, 53, 54,
      55, 56, 57, 58, 59, 60, 61, 62, 63, 64, 65, 66, 67, 68, 69, 70, 71, 72, 73, 74, 75, 76,
      77] [100, 100, 100, 100, 100, 100, 100, 100, 100, 100, 100, 100, 100, 100, 100, 100, 100,
      100, 100, 100, 100, 100, 100, 100, 99, 100, 200, 110] 14 14 =
     ([0, 0, 0, 0, 0, 0, 0, 0, 0, 0, 0, 0, 0, 13 / 21, 2 / 3, 2 / 3, 2 / 3, 2 / 3, 2 / 3, 2 / 3,
      2 / 3, 2 / 3, 2 / 3, 2 / 3, 2 / 3, 2 / 3, 2 / 3, 2 / 3],
      [0, 0, 0, 0, 0, 0, 0, 0, 0, 0, 0, 0, 0, 0, 0, 0, 0, 0, 0, 0, 0, 0, 0, 0, 0, 0, 0, 0],
      [0, 0, 0, 0, 0, 0, 0, 0, 0, 0, 0, 0, 0, 0, 0, 0, 0, 0, 0, 0, 0, 0, 0, 0, 0, 0, 100, 100])"
  unfolding dmi_adx_def Let_def by (simp add: series_defs)

lemma compute_bars27:
  "\<exists>c. compute TrendPhases_init bars27 = Inr c \<and> bars c = bars27
     \<and> last (debutHausse c) \<and> \<not> last (debutBaisse c)
     \<and> \<not> last (finHausse c) \<and> \<not> last (finBaisse c)"
  unfolding compute_def Let_def
  by (simp add: TrendPhases_init_def bars27_cols ema_27 rsi_27 dmi_27 series_defs)

lemma compute_bars28:
  "\<exists>c. compute TrendPhases_init bars28 = Inr c \<and> bars c = bars28
     \<and> \<not> last (debutHausse c) \<and> \<not> last (debutBaisse c)
     \<and> last (finHausse c) \<and> \<not> last (finBaisse c)"
  unfolding compute_def Let_def
  by (simp add: TrendPhases_init_def bars28_cols ema_28 rsi_28 dmi_28 series_defs)

subsection \<open>One tick, branch by branch\<close>

lemma tick_body_branches:
  "tick_body w e =
     (case klines e of
        Inl err \<Rightarrow> (w, Some err)
      | Inr new_df \<Rightarrow>
          if new_df = [] then (w, Some IndexError)
          else if (case last_close_time w of None \<Rightarrow> False
                   | Some lct \<Rightarrow> close_time (last new_df) \<le> lct)
          then (w, None)
          else
            (case compute (strat w) new_df of
               Inl err \<Rightarrow> (w\<lparr>last_close_time := Some (close_time (last new_df))\<rparr>, Some err)
             | Inr calc \<Rightarrow>
                 if pos_side w = LONG
                 then long_branch
                        (debug_row (w\<lparr>last_close_time := Some (close_time (last new_df))\<rparr>)
                           (close_time (last new_df)) calc)
                        e (close (last (bars calc)))
                        (last (debutBaisse calc) \<or> last (finHausse calc))
                 else flat_branch
                        (debug_row (w\<lparr>last_close_time := Some (close_time (last new_df))\<rparr>)
                           (close_time (last new_df)) calc)
                        e (last (debutHausse calc))))"
  unfolding tick_body_def long_branch_def flat_branch_def debug_row_def Let_def
  by (simp add: dblog_def split: sum.split)


lemmas world_ops =
  dblog_def insert_trade_def upsert_position_def clear_position_def set_long_def set_flat_def

lemma long_branch_no_signal: "\<not> x \<Longrightarrow> long_branch w2 e price x = (w2, None)"
  by (simp add: long_branch_def)

lemma long_branch_flatten:
  "x \<Longrightarrow> pos_qty w2 \<le> 0 \<Longrightarrow> long_branch w2 e price x = (set_flat w2, None)"
  by (simp add: long_branch_def)

lemma long_branch_dry:
  "x \<Longrightarrow> 0 < pos_qty w2 \<Longrightarrow> dry_run w2 \<Longrightarrow>
   long_branch w2 e price x =
     (set_flat (insert_trade (symbol w2) SELL (pos_qty w2) price
        (Some ((price - entry_price w2) * pos_qty w2)) ''exit''
        (dblog (symbol w2) INFO (DryRunSell (pos_qty w2)) w2)), None)"
  by (simp add: long_branch_def sell_market_def dblog_def Let_def)

lemma long_branch_live_ok:
  "x \<Longrightarrow> 0 < pos_qty w2 \<Longrightarrow> \<not> dry_run w2 \<Longrightarrow> create_order_resp e = Inr resp \<Longrightarrow>
   long_branch w2 e price x =
     (set_flat (insert_trade (symbol w2) SELL (pos_qty w2) price
        (Some ((price - entry_price w2) * pos_qty w2)) ''exit''
        (dblog (symbol w2) INFO (SellResp resp)
           (w2\<lparr>orders := orders w2 @ [(symbol w2, SELL, pos_qty w2)]\<rparr>))), None)"
  by (simp add: long_branch_def sell_market_def dblog_def Let_def)

lemma long_branch_live_err:
  "x \<Longrightarrow> 0 < pos_qty w2 \<Longrightarrow> \<not> dry_run w2 \<Longrightarrow> create_order_resp e = Inl err \<Longrightarrow>
   long_branch w2 e price x =
     (w2\<lparr>orders := orders w2 @ [(symbol w2, SELL, pos_qty w2)]\<rparr>, Some err)"
  by (simp add: long_branch_def sell_market_def Let_def)


lemma flat_branch_no_signal: "\<not> dH \<Longrightarrow> flat_branch w2 e dH = (w2, None)"
  by (simp add: flat_branch_def)

lemma flat_branch_ticker_err:
  "dH \<Longrightarrow> ticker e = Inl err \<Longrightarrow> flat_branch w2 e dH = (w2, Some err)"
  by (simp add: flat_branch_def)

lemma flat_branch_sizer_err:
  "dH \<Longrightarrow> ticker e = Inr p \<Longrightarrow> compute_qty w2 p e = (w3, Inl err) \<Longrightarrow>
   flat_branch w2 e dH = (w3, Some err)"
  by (simp add: flat_branch_def)

lemma flat_branch_no_qty:
  "dH \<Longrightarrow> ticker e = Inr p \<Longrightarrow> compute_qty w2 p e = (w3, Inr q) \<Longrightarrow> q \<le> 0 \<Longrightarrow>
   flat_branch w2 e dH = (w3, None)"
  by (simp add: flat_branch_def)

lemma flat_branch_dry:
  "dH \<Longrightarrow> ticker e = Inr p \<Longrightarrow> compute_qty w2 p e = (w3, Inr q) \<Longrightarrow> 0 < q \<Longrightarrow> dry_run w3 \<Longrightarrow>
   flat_branch w2 e dH =
     (set_long (insert_trade (symbol w3) BUY q p None ''entry''
        (dblog (symbol w3) INFO (DryRunBuy q) w3)) q p, None)"
  by (simp add: flat_branch_def buy_market_def dblog_def Let_def)

lemma flat_branch_live_ok:
  "dH \<Longrightarrow> ticker e = Inr p \<Longrightarrow> compute_qty w2 p e = (w3, Inr q) \<Longrightarrow> 0 < q \<Longrightarrow> \<not> dry_run w3 \<Longrightarrow>
   create_order_resp e = Inr resp \<Longrightarrow>
   flat_branch w2 e dH =
     (set_long (insert_trade (symbol w3) BUY q p None ''entry''
        (dblog (symbol w3) INFO (BuyResp resp)
           (w3\<lparr>orders := orders w3 @ [(symbol w3, BUY, q)]\<rparr>))) q p, None)"
  by (simp add: flat_branch_def buy_market_def dblog_def Let_def)

lemma flat_branch_live_err:
  "dH \<Longrightarrow> ticker e = Inr p \<Longrightarrow> compute_qty w2 p e = (w3, Inr q) \<Longrightarrow> 0 < q \<Longrightarrow> \<not> dry_run w3 \<Longrightarrow>
   create_order_resp e = Inl err \<Longrightarrow>
   flat_branch w2 e dH = (w3\<lparr>orders := orders w3 @ [(symbol w3, BUY, q)]\<rparr>, Some err)"
  by (simp add: flat_branch_def buy_market_def Let_def)

lemma compute_qty_world:
  "fst (compute_qty w p e) =
     (case account e of
        Inl err \<Rightarrow> dblog (symbol w) ERROR (GetAccountFailed err) w | Inr _ \<Rightarrow> w)"
  by (simp add: compute_qty_def Let_def split: sum.split prod.split)

lemma compute_bars: "compute s df = Inr c \<Longrightarrow> bars c = df"
  by (auto simp: compute_def Let_def split: sum.splits prod.splits)

lemma long_branch_outcome:
  assumes "long_branch w2 e price x = (w', r)" and "pos_side w2 = LONG"
    and "klines e = Inr df" and "df \<noteq> []" and "price = close (last df)"
  shows "last_close_time w' = last_close_time w2
     \<and> (r \<noteq> None \<longrightarrow> no_transition w2 e w')
     \<and> (no_transition w2 e w' \<or> exit_transition w2 e w' \<or> flatten_transition w2 w')"
proof (cases x)
  case False
  with assms(1) have "w' = w2" "r = None" by (simp_all add: long_branch_no_signal)
  then show ?thesis by (simp add: no_transition_def)
next
  case x: True
  show ?thesis
  proof (cases "0 < pos_qty w2")
    case False
    with x assms(1) have "w' = set_flat w2" "r = None" by (simp_all add: long_branch_flatten)
    with False assms(2) show ?thesis
      by (simp add: flatten_transition_def world_ops position_def)
  next
    case q: True
    show ?thesis
    proof (cases "dry_run w2")
      case True
      from long_branch_dry[OF x q True, of e price] assms(1)
      have "w' = set_flat (insert_trade (symbol w2) SELL (pos_qty w2) price
        (Some ((price - entry_price w2) * pos_qty w2)) ''exit''
        (dblog (symbol w2) INFO (DryRunSell (pos_qty w2)) w2))" "r = None" by simp_all
      with True q assms(2-5) show ?thesis
        by (simp add: exit_transition_def world_ops position_def trade_def)
    next
      case live: False
      show ?thesis
      proof (cases "create_order_resp e")
        case (Inl err)
        from long_branch_live_err[OF x q live Inl, of price] assms(1)
        have "w' = w2\<lparr>orders := orders w2 @ [(symbol w2, SELL, pos_qty w2)]\<rparr>" "r = Some err"
          by simp_all
        with live q assms(2) Inl show ?thesis
          by (simp add: no_transition_def position_def)
      next
        case (Inr resp)
        from long_branch_live_ok[OF x q live Inr, of price] assms(1)
        have "w' = set_flat (insert_trade (symbol w2) SELL (pos_qty w2) price
          (Some ((price - entry_price w2) * pos_qty w2)) ''exit''
          (dblog (symbol w2) INFO (SellResp resp)
             (w2\<lparr>orders := orders w2 @ [(symbol w2, SELL, pos_qty w2)]\<rparr>)))" "r = None"
          by simp_all
        with live q assms(2-5) Inr show ?thesis
          by (simp add: exit_transition_def world_ops position_def trade_def)
      qed
    qed
  qed
qed


lemma compute_qty_frame: "compute_qty w p e = (w3, r) \<Longrightarrow> \<exists>ls. w3 = w\<lparr>logs := ls\<rparr>"
proof -
  assume a: "compute_qty w p e = (w3, r)"
  have "w3 = fst (compute_qty w p e)" using a by simp
  then have w3: "w3 = (case account e of
        Inl err \<Rightarrow> dblog (symbol w) ERROR (GetAccountFailed err) w | Inr _ \<Rightarrow> w)"
    by (simp add: compute_qty_world)
  show ?thesis
  proof (cases "account e")
    case (Inl err)
    with w3 have "w3 = w\<lparr>logs := logs w @ [\<lparr>l_symbol = symbol w, l_level = ERROR,
        l_message = GetAccountFailed err\<rparr>]\<rparr>" by (simp add: dblog_def)
    then show ?thesis by blast
  next
    case (Inr bs)
    with w3 have "w3 = w\<lparr>logs := logs w\<rparr>" by simp
    then show ?thesis by blast
  qed
qed

lemma flat_branch_outcome:
  assumes "flat_branch w2 e dH = (w', r)" and "pos_side w2 \<noteq> LONG"
  shows "last_close_time w' = last_close_time w2
     \<and> (r \<noteq> None \<longrightarrow> no_transition w2 e w')
     \<and> (no_transition w2 e w' \<or> entry_transition w2 e w')"
proof (cases dH)
  case False
  with assms(1) have "w' = w2" "r = None" by (simp_all add: flat_branch_no_signal)
  then show ?thesis by (simp add: no_transition_def)
next
  case d: True
  show ?thesis
  proof (cases "ticker e")
    case (Inl err)
    from flat_branch_ticker_err[OF d Inl, of w2] assms(1) have "w' = w2" by simp
    then show ?thesis by (simp add: no_transition_def)
  next
    case t: (Inr p)
    obtain w3 rq where c: "compute_qty w2 p e = (w3, rq)" by (cases "compute_qty w2 p e")
    from compute_qty_frame[OF c] obtain ls where w3: "w3 = w2\<lparr>logs := ls\<rparr>" by blast
    show ?thesis
    proof (cases rq)
      case (Inl err)
      from flat_branch_sizer_err[OF d t c[unfolded Inl]] assms(1) have "w' = w3" by simp
      with w3 show ?thesis by (simp add: no_transition_def position_def)
    next
      case q: (Inr q)
      note cq = c[unfolded q]
      show ?thesis
      proof (cases "0 < q")
        case False
        then have "q \<le> 0" by simp
        from flat_branch_no_qty[OF d t cq this] assms(1) have "w' = w3" by simp
        with w3 show ?thesis by (simp add: no_transition_def position_def)
      next
        case pos: True
        show ?thesis
        proof (cases "dry_run w3")
          case True
          from flat_branch_dry[OF d t cq pos True] assms(1)
          have "w' = set_long (insert_trade (symbol w3) BUY q p None ''entry''
            (dblog (symbol w3) INFO (DryRunBuy q) w3)) q p" "r = None" by simp_all
          with True pos t w3 assms(2) show ?thesis
            by (simp add: entry_transition_def world_ops position_def trade_def)
        next
          case live: False
          show ?thesis
          proof (cases "create_order_resp e")
            case (Inl err)
            from flat_branch_live_err[OF d t cq pos live Inl] assms(1)
            have "w' = w3\<lparr>orders := orders w3 @ [(symbol w3, BUY, q)]\<rparr>" "r = Some err"
              by simp_all
            with live pos w3 assms(2) Inl have
              "position w' = position w2" "trades w' = trades w2" "positions w' = positions w2"
              "last_close_time w' = last_close_time w2"
              "orders w' = orders w2 @ [(symbol w2, BUY, q)]" "\<not> dry_run w2"
              by (simp_all add: position_def)
            with pos assms(2) Inl show ?thesis
              unfolding no_transition_def by blast
          next
            case (Inr resp)
            from flat_branch_live_ok[OF d t cq pos live Inr] assms(1)
            have "w' = set_long (insert_trade (symbol w3) BUY q p None ''entry''
              (dblog (symbol w3) INFO (BuyResp resp)
                 (w3\<lparr>orders := orders w3 @ [(symbol w3, BUY, q)]\<rparr>))) q p" "r = None"
              by simp_all
            with live pos t w3 assms(2) Inr show ?thesis
              by (simp add: entry_transition_def world_ops position_def trade_def)
          qed
        qed
      qed
    qed
  qed
qed

lemma transition_cong:
  assumes "position w2 = position w" "trades w2 = trades w" "positions w2 = positions w"
    "orders w2 = orders w" "symbol w2 = symbol w" "dry_run w2 = dry_run w"
  shows "no_transition w2 e w' = no_transition w e w'"
    and "entry_transition w2 e w' = entry_transition w e w'"
    and "exit_transition w2 e w' = exit_transition w e w'"
    and "flatten_transition w2 w' = flatten_transition w w'"
proof -
  from assms(1) have p: "pos_side w2 = pos_side w" "pos_qty w2 = pos_qty w"
    "entry_price w2 = entry_price w" by (simp_all add: position_def)
  show "no_transition w2 e w' = no_transition w e w'"
    unfolding no_transition_def assms p ..
  show "entry_transition w2 e w' = entry_transition w e w'"
    unfolding entry_transition_def assms p ..
  show "exit_transition w2 e w' = exit_transition w e w'"
    unfolding exit_transition_def assms p ..
  show "flatten_transition w2 w' = flatten_transition w w'"
    unfolding flatten_transition_def assms p ..
qed

lemma transition_dblog:
  "no_transition w e (dblog s l m w') = no_transition w e w'"
  "entry_transition w e (dblog s l m w') = entry_transition w e w'"
  "exit_transition w e (dblog s l m w') = exit_transition w e w'"
  "flatten_transition w (dblog s l m w') = flatten_transition w w'"
  by (simp_all add: no_transition_def entry_transition_def exit_transition_def
      flatten_transition_def dblog_def position_def)

lemma debug_row_fields:
  "position (debug_row (w\<lparr>last_close_time := t\<rparr>) n c) = position w"
  "trades (debug_row (w\<lparr>last_close_time := t\<rparr>) n c) = trades w"
  "positions (debug_row (w\<lparr>last_close_time := t\<rparr>) n c) = positions w"
  "orders (debug_row (w\<lparr>last_close_time := t\<rparr>) n c) = orders w"
  "symbol (debug_row (w\<lparr>last_close_time := t\<rparr>) n c) = symbol w"
  "dry_run (debug_row (w\<lparr>last_close_time := t\<rparr>) n c) = dry_run w"
  "pos_side (debug_row (w\<lparr>last_close_time := t\<rparr>) n c) = pos_side w"
  "last_close_time (debug_row (w\<lparr>last_close_time := t\<rparr>) n c) = t"
  by (simp_all add: debug_row_def dblog_def position_def)

lemma tick_body_outcome:
  assumes "tick_body w e = (w1, r)"
  shows "(r \<noteq> None \<longrightarrow> no_transition w e w1)
     \<and> (no_transition w e w1 \<or> entry_transition w e w1 \<or> exit_transition w e w1
        \<or> flatten_transition w w1)
     \<and> (w1 = w \<or> (\<exists>df. klines e = Inr df \<and> df \<noteq> []
            \<and> last_close_time w1 = Some (close_time (last df))))"
proof (cases "klines e")
  case (Inl err)
  with assms have "w1 = w" by (simp add: tick_body_branches)
  then show ?thesis by (simp add: no_transition_def)
next
  case k: (Inr df)
  show ?thesis
  proof (cases "df = []")
    case True
    with assms k have "w1 = w" by (simp add: tick_body_branches)
    then show ?thesis by (simp add: no_transition_def)
  next
    case ne: False
    show ?thesis
    proof (cases "case last_close_time w of None \<Rightarrow> False
                  | Some lct \<Rightarrow> close_time (last df) \<le> lct")
      case True
      with assms k ne have "w1 = w" by (simp add: tick_body_branches)
      then show ?thesis by (simp add: no_transition_def)
    next
      case fresh: False
      let ?wt = "w\<lparr>last_close_time := Some (close_time (last df))\<rparr>"
      show ?thesis
      proof (cases "compute (strat w) df")
        case (Inl err)
        with assms k ne fresh have "w1 = ?wt" by (simp add: tick_body_branches)
        with k ne show ?thesis by (simp add: no_transition_def position_def)
      next
        case c: (Inr calc)
        let ?w2 = "debug_row ?wt (close_time (last df)) calc"
        have b: "bars calc = df" using c by (rule compute_bars)
        note cong = transition_cong[of ?w2 w, OF debug_row_fields(1-6)]
        show ?thesis
        proof (cases "pos_side w = LONG")
          case True
          with assms k ne fresh c have
            lb: "long_branch ?w2 e (close (last (bars calc)))
                   (last (debutBaisse calc) \<or> last (finHausse calc)) = (w1, r)"
            by (simp add: tick_body_branches)
          have "pos_side ?w2 = LONG" using True by (simp add: debug_row_fields)
          from long_branch_outcome[OF lb this k ne] b
          have "last_close_time w1 = last_close_time ?w2
             \<and> (r \<noteq> None \<longrightarrow> no_transition ?w2 e w1)
             \<and> (no_transition ?w2 e w1 \<or> exit_transition ?w2 e w1 \<or> flatten_transition ?w2 w1)"
            by simp
          then show ?thesis using k ne
            unfolding cong debug_row_fields by blast
        next
          case False
          with assms k ne fresh c have
            fb: "flat_branch ?w2 e (last (debutHausse calc)) = (w1, r)"
            by (simp add: tick_body_branches)
          have "pos_side ?w2 \<noteq> LONG" using False by (simp add: debug_row_fields)
          from flat_branch_outcome[OF fb this]
          have "last_close_time w1 = last_close_time ?w2
             \<and> (r \<noteq> None \<longrightarrow> no_transition ?w2 e w1)
             \<and> (no_transition ?w2 e w1 \<or> entry_transition ?w2 e w1)" .
          then show ?thesis using k ne
            unfolding cong debug_row_fields by blast
        qed
      qed
    qed
  qed
qed

lemma tick_outcome:
  "no_transition w e (tick w e) \<or> entry_transition w e (tick w e)
   \<or> exit_transition w e (tick w e) \<or> flatten_transition w (tick w e)"
proof -
  obtain w1 r where t: "tick_body w e = (w1, r)" by (cases "tick_body w e")
  from tick_body_outcome[OF t] have
    o: "no_transition w e w1 \<or> entry_transition w e w1 \<or> exit_transition w e w1
        \<or> flatten_transition w w1" by blast
  show ?thesis
  proof (cases r)
    case None
    with t have "tick w e = w1" by (simp add: tick_def)
    with o show ?thesis by simp
  next
    case (Some err)
    with t have "tick w e = dblog (symbol w1) ERROR (BinanceError err) w1
        \<or> tick w e = dblog (symbol w1) ERROR (LoopError err) w1"
      by (simp add: tick_def)
    with o show ?thesis by (auto simp: transition_dblog)
  qed
qed

subsection \<open>Execution engine\<close>

lemma tick_stale:
  assumes "klines e = Inr df" "df \<noteq> []" "last_close_time w = Some lct"
    "close_time (last df) \<le> lct"
  shows "tick_body w e = (w, None)"
  using assms by (simp add: tick_body_branches)

text \<open>
  C7. When the newest bar of the fetched window closes no later than the last processed
  close time, the tick returns the world as it was: position, last processed close time,
  trades and positions tables, order calls and log are all unchanged. The log would hold a
  DEBUG row had the indicators been recomputed, and an ERROR row had their computation
  raised; neither is there, whatever the window holds.
\<close>

theorem tick_skips_stale_bar:
  assumes "klines e = Inr df" and "df \<noteq> []" and "last_close_time w = Some lct"
    and "close_time (last df) \<le> lct"
  shows "tick w e = w"
  using tick_stale[OF assms] by (simp add: tick_def)

theorem tick_skips_stale_bar_witness:
  "klines (env_ex bars27 100 1000 info_a) = Inr bars27 \<and> bars27 \<noteq> []
   \<and> last_close_time (bot_long (1 / 10) True) = Some 1619999
   \<and> close_time (last bars27) \<le> 1619999
   \<and> tick (bot_long (1 / 10) True) (env_ex bars27 100 1000 info_a) = bot_long (1 / 10) True"
proof -
  have a: "klines (env_ex bars27 100 1000 info_a) = Inr bars27" by (simp add: env_ex_def)
  have b: "last_close_time (bot_long (1 / 10) True) = Some 1619999"
    by (simp add: bot_long_def)
  have c: "close_time (last bars27) \<le> 1619999" by (simp add: bars27_last)
  from tick_skips_stale_bar[OF a bars27_last(1) b c] a b c bars27_last(1)
  show ?thesis by simp
qed

lemma long_branch_config: "config (fst (long_branch w2 e price x)) = config w2"
  by (cases x; cases "0 < pos_qty w2"; cases "dry_run w2"; cases "create_order_resp e")
     (simp_all add: long_branch_def sell_market_def world_ops Let_def config_def)

lemma compute_qty_config: "config (fst (compute_qty w p e)) = config w"
  by (cases "account e") (simp_all add: compute_qty_world dblog_def config_def)

lemma buy_market_config: "config (fst (buy_market w q e)) = config w"
  by (cases "dry_run w"; cases "create_order_resp e")
     (simp_all add: buy_market_def dblog_def Let_def config_def)

lemma flat_branch_config: "config (fst (flat_branch w2 e dH)) = config w2"
proof (cases dH)
  case False
  then show ?thesis by (simp add: flat_branch_no_signal)
next
  case d: True
  show ?thesis
  proof (cases "ticker e")
    case (Inl err)
    then show ?thesis using d by (simp add: flat_branch_ticker_err)
  next
    case t: (Inr p)
    obtain w3 rq where c: "compute_qty w2 p e = (w3, rq)" by (cases "compute_qty w2 p e")
    have c3: "config w3 = config w2" using compute_qty_config[of w2 p e] c by simp
    show ?thesis
    proof (cases rq)
      case (Inl err)
      with d t c c3 show ?thesis by (simp add: flat_branch_def)
    next
      case (Inr q)
      obtain w4 rb where b: "buy_market w3 q e = (w4, rb)" by (cases "buy_market w3 q e")
      have c4: "config w4 = config w3" using buy_market_config[of w3 q e] b by simp
      from d t c Inr b c3 c4 show ?thesis
        by (cases "0 < q"; cases rb)
           (simp_all add: flat_branch_def world_ops config_def)
    qed
  qed
qed

lemma debug_row_config: "config (debug_row (w\<lparr>last_close_time := t\<rparr>) n c) = config w"
  by (simp add: debug_row_def dblog_def config_def)

lemma tick_body_config: "config (fst (tick_body w e)) = config w"
proof (cases "klines e")
  case (Inl err)
  then show ?thesis by (simp add: tick_body_branches)
next
  case k: (Inr df)
  show ?thesis
  proof (cases "compute (strat w) df")
    case (Inl err)
    with k show ?thesis by (simp add: tick_body_branches config_def)
  next
    case (Inr calc)
    with k show ?thesis
      by (simp add: tick_body_branches long_branch_config flat_branch_config debug_row_config)
  qed
qed

lemma tick_config: "config (tick w e) = config w"
proof -
  obtain w1 r where t: "tick_body w e = (w1, r)" by (cases "tick_body w e")
  have c: "config w1 = config w" using tick_body_config[of w e] t by simp
  have d: "config (dblog s l m w1) = config w1" for s l m
    by (simp add: dblog_def config_def)
  show ?thesis using t c d by (cases r) (simp_all add: tick_def)
qed

lemma compute_qty_snd_cong:
  assumes "config w2 = config w"
  shows "snd (compute_qty w2 p e) = snd (compute_qty w p e)"
proof -
  from assms have "symbol w2 = symbol w" "risk_pct w2 = risk_pct w" "max_pos w2 = max_pos w"
    by (simp_all add: config_def)
  then show ?thesis
    by (cases "account e")
       (simp_all add: compute_qty_def Let_def dblog_def split: sum.split)
qed

lemma tick_entry:
  assumes k: "klines e = Inr df" and ne: "df \<noteq> []"
    and fresh: "last_close_time w = Some t" "t < close_time (last df)"
    and c: "compute (strat w) df = Inr calc" and dH: "last (debutHausse calc)"
    and flat: "pos_side w \<noteq> LONG"
    and tk: "ticker e = Inr p" and q: "snd (compute_qty w p e) = Inr q" "0 < q"
    and ok: "dry_run w \<or> create_order_resp e = Inr resp"
  shows "position (tick w e) = (LONG, q, p)
     \<and> trades (tick w e) = trades w @ [trade (symbol w) BUY q p None ''entry'']
     \<and> orders (tick w e) = orders w @ (if dry_run w then [] else [(symbol w, BUY, q)])
     \<and> last_close_time (tick w e) = Some (close_time (last df))"
proof -
  let ?n = "close_time (last df)"
  let ?w2 = "debug_row (w\<lparr>last_close_time := Some ?n\<rparr>) ?n calc"
  have tb: "tick_body w e = flat_branch ?w2 e True"
    using k ne fresh c dH flat by (simp add: tick_body_branches)
  obtain w3 rq where cq: "compute_qty ?w2 p e = (w3, rq)" by (cases "compute_qty ?w2 p e")
  have "config ?w2 = config w" by (rule debug_row_config)
  from compute_qty_snd_cong[OF this, of p e] cq
  have "rq = snd (compute_qty w p e)" by simp
  with q have rq: "rq = Inr q" by simp
  from compute_qty_frame[OF cq] obtain ls where w3: "w3 = ?w2\<lparr>logs := ls\<rparr>" by blast
  have d3: "dry_run w3 = dry_run w" "symbol w3 = symbol w" "trades w3 = trades w"
    "orders w3 = orders w" "last_close_time w3 = Some ?n"
    unfolding w3 by (simp_all add: debug_row_def dblog_def)
  show ?thesis
  proof (cases "dry_run w")
    case True
    then have "dry_run w3" using d3 by simp
    from flat_branch_dry[OF _ tk cq[unfolded rq] q(2) this] tb
    have "tick_body w e = (set_long (insert_trade (symbol w3) BUY q p None ''entry''
        (dblog (symbol w3) INFO (DryRunBuy q) w3)) q p, None)" by simp
    then show ?thesis using True d3
      by (simp add: tick_def world_ops position_def trade_def)
  next
    case False
    then have l: "\<not> dry_run w3" using d3 by simp
    from False ok have r: "create_order_resp e = Inr resp" by simp
    from flat_branch_live_ok[OF _ tk cq[unfolded rq] q(2) l r] tb
    have "tick_body w e = (set_long (insert_trade (symbol w3) BUY q p None ''entry''
        (dblog (symbol w3) INFO (BuyResp resp)
           (w3\<lparr>orders := orders w3 @ [(symbol w3, BUY, q)]\<rparr>))) q p, None)" by simp
    then show ?thesis using False d3
      by (simp add: tick_def world_ops position_def trade_def)
  qed
qed

lemma tick_exit:
  assumes k: "klines e = Inr df" and ne: "df \<noteq> []"
    and fresh: "last_close_time w = Some t" "t < close_time (last df)"
    and c: "compute (strat w) df = Inr calc"
    and x: "last (debutBaisse calc) \<or> last (finHausse calc)"
    and long: "pos_side w = LONG" and q: "0 < pos_qty w"
    and ok: "dry_run w \<or> create_order_resp e = Inr resp"
  shows "position (tick w e) = (FLAT, 0, 0)
     \<and> trades (tick w e) = trades w @
          [trade (symbol w) SELL (pos_qty w) (close (last df))
             (Some ((close (last df) - entry_price w) * pos_qty w)) ''exit'']
     \<and> orders (tick w e) = orders w @ (if dry_run w then [] else [(symbol w, SELL, pos_qty w)])
     \<and> last_close_time (tick w e) = Some (close_time (last df))"
proof -
  let ?n = "close_time (last df)"
  let ?w2 = "debug_row (w\<lparr>last_close_time := Some ?n\<rparr>) ?n calc"
  have b: "bars calc = df" using c by (rule compute_bars)
  have tb: "tick_body w e = long_branch ?w2 e (close (last df)) True"
    using k ne fresh c x long b by (simp add: tick_body_branches)
  have d2: "dry_run ?w2 = dry_run w" "symbol ?w2 = symbol w" "trades ?w2 = trades w"
    "orders ?w2 = orders w" "last_close_time ?w2 = Some ?n" "pos_qty ?w2 = pos_qty w"
    "entry_price ?w2 = entry_price w"
    by (simp_all add: debug_row_def dblog_def)
  have q2: "0 < pos_qty ?w2" using q d2 by simp
  show ?thesis
  proof (cases "dry_run w")
    case True
    then have "dry_run ?w2" using d2 by simp
    from long_branch_dry[OF _ q2 this, of True e "close (last df)"] tb
    have "tick_body w e = (set_flat (insert_trade (symbol ?w2) SELL (pos_qty ?w2)
        (close (last df)) (Some ((close (last df) - entry_price ?w2) * pos_qty ?w2)) ''exit''
        (dblog (symbol ?w2) INFO (DryRunSell (pos_qty ?w2)) ?w2)), None)" by simp
    then show ?thesis using True d2
      by (simp add: tick_def world_ops position_def trade_def)
  next
    case False
    then have l: "\<not> dry_run ?w2" using d2 by simp
    from False ok have r: "create_order_resp e = Inr resp" by simp
    from long_branch_live_ok[OF _ q2 l r, of True "close (last df)"] tb
    have "tick_body w e = (set_flat (insert_trade (symbol ?w2) SELL (pos_qty ?w2)
        (close (last df)) (Some ((close (last df) - entry_price ?w2) * pos_qty ?w2)) ''exit''
        (dblog (symbol ?w2) INFO (SellResp resp)
           (?w2\<lparr>orders := orders ?w2 @ [(symbol ?w2, SELL, pos_qty ?w2)]\<rparr>))), None)"
      by simp
    then show ?thesis using False d2
      by (simp add: tick_def world_ops position_def trade_def)
  qed
qed

text \<open>An entry tick and an exit tick on the example windows.\<close>

lemma bot_ready_fields:
  "strat (bot_ready r dr) = TrendPhases_init" "pos_side (bot_ready r dr) = FLAT"
  "pos_qty (bot_ready r dr) = 0" "entry_price (bot_ready r dr) = 0"
  "last_close_time (bot_ready r dr) = Some 1559999" "dry_run (bot_ready r dr) = dr"
  "symbol (bot_ready r dr) = ''BTCUSDT''" "trades (bot_ready r dr) = []"
  "orders (bot_ready r dr) = []" "risk_pct (bot_ready r dr) = r"
  by (simp_all add: bot_ready_def bot_ex_def Bot_init_def)

lemma bot_long_fields:
  "strat (bot_long r dr) = TrendPhases_init" "pos_side (bot_long r dr) = LONG"
  "pos_qty (bot_long r dr) = 1" "entry_price (bot_long r dr) = 100"
  "last_close_time (bot_long r dr) = Some 1619999" "dry_run (bot_long r dr) = dr"
  "symbol (bot_long r dr) = ''BTCUSDT''" "trades (bot_long r dr) = []"
  "orders (bot_long r dr) = []"
  by (simp_all add: bot_long_def bot_ex_def Bot_init_def)

lemma env_ex_fields:
  "klines (env_ex df p bal info) = Inr df" "ticker (env_ex df p bal info) = Inr p"
  "account (env_ex df p bal info) = Inr [(''BTC'', 1), (''USDT'', bal)]"
  "symbol_info_resp (env_ex df p bal info) = Inr (Some info)"
  "create_order_resp (env_ex df p bal info) = Inr ''FILLED''"
  by (simp_all add: env_ex_def)

lemma sizer_example:
  "snd (compute_qty (bot_ready (1 / 10) dr) 100 (env_ex df 100 1000 info_a)) = Inr 1"
  by (simp add: compute_qty_def bot_ready_def bot_ex_def env_ex_def Bot_init_def quote_asset_def
      suffix_def symbol_filters_def conform_qty_and_notional_def info_a_def
      lot_min_qty_def lot_max_qty_def lot_step_def min_notional_of_def dict_get_def
      round_step_size_def py_div_def Let_def)

lemma tick_buy_example:
  "position (tick (bot_ready (1 / 10) dr) (env_ex bars27 100 1000 info_a)) = (LONG, 1, 100)
   \<and> trades (tick (bot_ready (1 / 10) dr) (env_ex bars27 100 1000 info_a)) =
       [trade ''BTCUSDT'' BUY 1 100 None ''entry'']
   \<and> orders (tick (bot_ready (1 / 10) dr) (env_ex bars27 100 1000 info_a)) =
       (if dr then [] else [(''BTCUSDT'', BUY, 1)])
   \<and> last_close_time (tick (bot_ready (1 / 10) dr) (env_ex bars27 100 1000 info_a)) =
       Some 1619999"
proof -
  let ?w = "bot_ready (1 / 10) dr" and ?e = "env_ex bars27 100 1000 info_a"
  from compute_bars27 obtain c where
    c: "compute TrendPhases_init bars27 = Inr c" and dH: "last (debutHausse c)" by blast
  have c': "compute (strat ?w) bars27 = Inr c" using c by (simp add: bot_ready_fields)
  have ok: "dry_run ?w \<or> create_order_resp ?e = Inr ''FILLED''"
    by (simp add: env_ex_fields)
  have "position (tick ?w ?e) = (LONG, 1, 100)
     \<and> trades (tick ?w ?e) = trades ?w @ [trade (symbol ?w) BUY 1 100 None ''entry'']
     \<and> orders (tick ?w ?e) = orders ?w @ (if dry_run ?w then [] else [(symbol ?w, BUY, 1)])
     \<and> last_close_time (tick ?w ?e) = Some (close_time (last bars27))"
    by (rule tick_entry[OF env_ex_fields(1) bars27_last(1) bot_ready_fields(5) _ c' dH _
          env_ex_fields(2) sizer_example _ ok])
       (simp_all add: bars27_last bot_ready_fields)
  then show ?thesis by (simp add: bot_ready_fields bars27_last)
qed

lemma tick_sell_example:
  "position (tick (bot_long (1 / 10) dr) (env_ex bars28 110 1000 info_a)) = (FLAT, 0, 0)
   \<and> trades (tick (bot_long (1 / 10) dr) (env_ex bars28 110 1000 info_a)) =
       [trade ''BTCUSDT'' SELL 1 110 (Some 10) ''exit'']
   \<and> orders (tick (bot_long (1 / 10) dr) (env_ex bars28 110 1000 info_a)) =
       (if dr then [] else [(''BTCUSDT'', SELL, 1)])
   \<and> last_close_time (tick (bot_long (1 / 10) dr) (env_ex bars28 110 1000 info_a)) =
       Some 1679999"
proof -
  let ?w = "bot_long (1 / 10) dr" and ?e = "env_ex bars28 110 1000 info_a"
  from compute_bars28 obtain c where
    c: "compute TrendPhases_init bars28 = Inr c" and fH: "last (finHausse c)" by blast
  have c': "compute (strat ?w) bars28 = Inr c" using c by (simp add: bot_long_fields)
  have x: "last (debutBaisse c) \<or> last (finHausse c)" using fH by simp
  have ok: "dry_run ?w \<or> create_order_resp ?e = Inr ''FILLED''"
    by (simp add: env_ex_fields)
  have "position (tick ?w ?e) = (FLAT, 0, 0)
     \<and> trades (tick ?w ?e) = trades ?w @
          [trade (symbol ?w) SELL (pos_qty ?w) (close (last bars28))
             (Some ((close (last bars28) - entry_price ?w) * pos_qty ?w)) ''exit'']
     \<and> orders (tick ?w ?e) =
          orders ?w @ (if dry_run ?w then [] else [(symbol ?w, SELL, pos_qty ?w)])
     \<and> last_close_time (tick ?w ?e) = Some (close_time (last bars28))"
    by (rule tick_exit[OF env_ex_fields(1) bars28_last(1) bot_long_fields(5) _ c' x
          bot_long_fields(2) _ ok])
       (simp_all add: bars28_last bot_long_fields)
  then show ?thesis by (simp add: bot_long_fields bars28_last)
qed

lemma pos_inv_tick: "pos_inv w \<Longrightarrow> pos_inv (tick w e)"
  using tick_outcome[of w e]
  by (auto simp: pos_inv_def no_transition_def entry_transition_def exit_transition_def
      flatten_transition_def position_def)

lemma pos_inv_foldl: "pos_inv w \<Longrightarrow> pos_inv (foldl tick w es)"
  by (induction es arbitrary: w) (simp_all add: pos_inv_tick)

lemma pos_inv_Bot_init: "pos_inv (Bot_init smb itv risk maxp tn dr key sec ts ps ls)"
  by (simp add: pos_inv_def Bot_init_def)

lemma pos_inv_dblog: "pos_inv (dblog s l m w) = pos_inv w"
  by (simp add: pos_inv_def dblog_def)

lemma pos_inv_lct: "pos_inv (w\<lparr>last_close_time := t\<rparr>) = pos_inv w"
  by (simp add: pos_inv_def)

lemma pos_inv_run: "pos_inv w \<Longrightarrow> pos_inv (run w e0 es)"
  by (simp add: run_def Let_def pos_inv_dblog pos_inv_lct pos_inv_foldl split: sum.split)


lemma new_trades_cases:
  "new_trades w (tick w e) = []
   \<or> (\<exists>q p. pos_side w \<noteq> LONG \<and> position (tick w e) = (LONG, q, p)
         \<and> new_trades w (tick w e) = [trade (symbol w) BUY q p None ''entry''])
   \<or> (\<exists>p. pos_side w = LONG \<and> position (tick w e) = (FLAT, 0, 0)
         \<and> new_trades w (tick w e) =
             [trade (symbol w) SELL (pos_qty w) p (Some ((p - entry_price w) * pos_qty w))
                ''exit''])"
  using tick_outcome[of w e]
  unfolding no_transition_def entry_transition_def exit_transition_def flatten_transition_def
    new_trades_def
  by (elim disjE conjE exE) (simp_all, blast+)

lemma new_orders_cases:
  "new_orders w (tick w e) = []
   \<or> (\<exists>q. pos_side w \<noteq> LONG \<and> new_orders w (tick w e) = [(symbol w, BUY, q)])
   \<or> (pos_side w = LONG \<and> new_orders w (tick w e) = [(symbol w, SELL, pos_qty w)])"
  using tick_outcome[of w e]
  unfolding no_transition_def entry_transition_def exit_transition_def flatten_transition_def
    new_orders_def
  by (elim disjE conjE exE) (simp_all split: if_splits)

lemma not_LONG: "(s \<noteq> LONG) = (s = FLAT)"
  by (cases s) simp_all

text \<open>
  C5. A new bot satisfies \<open>side = FLAT \<longleftrightarrow> quantity = 0\<close>, every tick keeps it, and so
  it holds after any number of ticks and at the end of a run. A BUY row or order call is
  added only by a tick that starts FLAT, and that tick ends LONG with the bought quantity;
  a SELL row or order call is added only by a tick that starts LONG, for the whole quantity
  held, and that tick ends FLAT.
\<close>

theorem position_invariant:
  "pos_inv (Bot_init smb itv risk maxp tn dr key sec ts ps ls)
   \<and> pos_inv (run (Bot_init smb itv risk maxp tn dr key sec ts ps ls) e0 es)
   \<and> (pos_inv w \<longrightarrow> pos_inv (tick w e) \<and> pos_inv (foldl tick w es))
   \<and> (\<forall>t \<in> set (new_trades w (tick w e)).
         (t_side t = BUY \<longrightarrow>
            pos_side w = FLAT \<and> pos_side (tick w e) = LONG \<and> pos_qty (tick w e) = t_qty t)
       \<and> (t_side t = SELL \<longrightarrow>
            pos_side w = LONG \<and> t_qty t = pos_qty w \<and> pos_side (tick w e) = FLAT
            \<and> pos_qty (tick w e) = 0))
   \<and> (\<forall>(s, sd, q) \<in> set (new_orders w (tick w e)).
         (sd = BUY \<longrightarrow> pos_side w = FLAT)
       \<and> (sd = SELL \<longrightarrow> pos_side w = LONG \<and> q = pos_qty w))"
proof -
  have a: "pos_inv (Bot_init smb itv risk maxp tn dr key sec ts ps ls)"
    by (rule pos_inv_Bot_init)
  have b: "pos_inv (run (Bot_init smb itv risk maxp tn dr key sec ts ps ls) e0 es)"
    by (rule pos_inv_run[OF pos_inv_Bot_init])
  have c: "pos_inv w \<longrightarrow> pos_inv (tick w e) \<and> pos_inv (foldl tick w es)"
    by (simp add: pos_inv_tick pos_inv_foldl)
  have d: "\<forall>t \<in> set (new_trades w (tick w e)).
         (t_side t = BUY \<longrightarrow>
            pos_side w = FLAT \<and> pos_side (tick w e) = LONG \<and> pos_qty (tick w e) = t_qty t)
       \<and> (t_side t = SELL \<longrightarrow>
            pos_side w = LONG \<and> t_qty t = pos_qty w \<and> pos_side (tick w e) = FLAT
            \<and> pos_qty (tick w e) = 0)"
    using new_trades_cases[of w e]
    by (elim disjE conjE exE) (simp_all add: trade_def position_def not_LONG)
  have f: "\<forall>(s, sd, q) \<in> set (new_orders w (tick w e)).
         (sd = BUY \<longrightarrow> pos_side w = FLAT)
       \<and> (sd = SELL \<longrightarrow> pos_side w = LONG \<and> q = pos_qty w)"
    using new_orders_cases[of w e]
    by (elim disjE conjE exE) (simp_all add: not_LONG)
  from a b c d f show ?thesis by blast
qed


text \<open>
  The entry tick and the exit tick of the examples: the invariant holds before and after,
  the BUY row is added from FLAT and leaves the bot LONG with quantity 1, the SELL row and
  order are added from LONG for the whole quantity 1 and leave the bot FLAT.
\<close>

theorem position_invariant_witness:
  "pos_inv (bot_ready (1 / 10) True)
   \<and> pos_inv (tick (bot_ready (1 / 10) True) (env_ex bars27 100 1000 info_a))
   \<and> trade ''BTCUSDT'' BUY 1 100 None ''entry''
       \<in> set (new_trades (bot_ready (1 / 10) True)
                 (tick (bot_ready (1 / 10) True) (env_ex bars27 100 1000 info_a)))
   \<and> pos_side (bot_ready (1 / 10) True) = FLAT
   \<and> pos_side (tick (bot_ready (1 / 10) True) (env_ex bars27 100 1000 info_a)) = LONG
   \<and> pos_qty (tick (bot_ready (1 / 10) True) (env_ex bars27 100 1000 info_a)) = 1
   \<and> pos_inv (bot_long (1 / 10) False)
   \<and> pos_inv (tick (bot_long (1 / 10) False) (env_ex bars28 110 1000 info_a))
   \<and> trade ''BTCUSDT'' SELL 1 110 (Some 10) ''exit''
       \<in> set (new_trades (bot_long (1 / 10) False)
                 (tick (bot_long (1 / 10) False) (env_ex bars28 110 1000 info_a)))
   \<and> (''BTCUSDT'', SELL, 1)
       \<in> set (new_orders (bot_long (1 / 10) False)
                 (tick (bot_long (1 / 10) False) (env_ex bars28 110 1000 info_a)))
   \<and> pos_side (bot_long (1 / 10) False) = LONG
   \<and> pos_qty (bot_long (1 / 10) False) = 1
   \<and> pos_side (tick (bot_long (1 / 10) False) (env_ex bars28 110 1000 info_a)) = FLAT
   \<and> pos_qty (tick (bot_long (1 / 10) False) (env_ex bars28 110 1000 info_a)) = 0"
proof -
  let ?w1 = "bot_ready (1 / 10) True" and ?e1 = "env_ex bars27 100 1000 info_a"
  let ?w2 = "bot_long (1 / 10) False" and ?e2 = "env_ex bars28 110 1000 info_a"
  have i1: "pos_inv ?w1" by (simp add: pos_inv_def bot_ready_fields)
  have i2: "pos_inv ?w2" by (simp add: pos_inv_def bot_long_fields)
  have n1: "new_trades ?w1 (tick ?w1 ?e1) = [trade ''BTCUSDT'' BUY 1 100 None ''entry'']"
    using tick_buy_example[of True] by (simp add: new_trades_def bot_ready_fields)
  have n2: "new_trades ?w2 (tick ?w2 ?e2) = [trade ''BTCUSDT'' SELL 1 110 (Some 10) ''exit'']"
    using tick_sell_example[of False] by (simp add: new_trades_def bot_long_fields)
  have o2: "new_orders ?w2 (tick ?w2 ?e2) = [(''BTCUSDT'', SELL, 1)]"
    using tick_sell_example[of False] by (simp add: new_orders_def bot_long_fields)
  note p1 = position_invariant[where w = ?w1 and e = ?e1]
  note p2 = position_invariant[where w = ?w2 and e = ?e2]
  from p1 i1 have a: "pos_inv (tick ?w1 ?e1)" by blast
  from p1 n1 have b: "pos_side ?w1 = FLAT \<and> pos_side (tick ?w1 ?e1) = LONG
      \<and> pos_qty (tick ?w1 ?e1) = 1"
    by (simp add: trade_def)
  from p2 i2 have c: "pos_inv (tick ?w2 ?e2)" by blast
  from p2 n2 have d: "pos_side ?w2 = LONG \<and> 1 = pos_qty ?w2 \<and> pos_side (tick ?w2 ?e2) = FLAT
      \<and> pos_qty (tick ?w2 ?e2) = 0"
    by (simp add: trade_def)
  from i1 i2 n1 n2 o2 a b c d show ?thesis by simp
qed

end
